theory Spec2Isabelle
  imports Complex_Main "HOL-Library.Multiset" "HOL-Library.Product_Lexorder"
begin

section \<open>Python values\<close>

text \<open>
  The screener of \<^verbatim>\<open>magicformula.py\<close> works on the JSON documents of the data provider.
  A JSON value is modelled as it arrives from \<^verbatim>\<open>r.json()\<close>: \<^verbatim>\<open>None\<close>, a bool, a number, a
  string, a list or a dict. Numbers are exact rationals: the model has Python's
  comparisons and arithmetic without the rounding, the infinities and the NaN of binary
  floating point. A dict is an association list in which a key is looked up by its first
  binding; strings are ASCII.

  An exception is a value of \<open>py_error\<close>, a function that can raise returns
  \<open>py_error + 'a\<close> with \<open>Inl\<close> for the exception.
\<close>

datatype py_error =
  RuntimeError | HTTPError | RequestException | JSONDecodeError
  | TypeError | ValueError | AttributeError | KeyError | IndexError | ZeroDivisionError
  | OSError

datatype json =
  JNull | JBool bool | JNum rat | JStr string | JList "json list" | JDict "(string \<times> json) list"

definition bind_err :: "'e + 'a \<Rightarrow> ('a \<Rightarrow> 'e + 'b) \<Rightarrow> 'e + 'b" where
  "bind_err m f = (case m of Inl e \<Rightarrow> Inl e | Inr x \<Rightarrow> f x)"

text \<open>Truth value of an object (\<^verbatim>\<open>if x\<close>, \<^verbatim>\<open>not x\<close>, \<^verbatim>\<open>x or y\<close>).\<close>

fun truthy :: "json \<Rightarrow> bool" where
  "truthy JNull = False"
| "truthy (JBool b) = b"
| "truthy (JNum x) = (x \<noteq> 0)"
| "truthy (JStr s) = (s \<noteq> [])"
| "truthy (JList xs) = (xs \<noteq> [])"
| "truthy (JDict kvs) = (kvs \<noteq> [])"

definition py_or :: "json \<Rightarrow> json \<Rightarrow> json" where
  "py_or x y = (if truthy x then x else y)"

text \<open>\<^verbatim>\<open>d.get(k)\<close>: only a dict has the method; a missing key gives \<^verbatim>\<open>None\<close>.\<close>

fun dict_get :: "json \<Rightarrow> string \<Rightarrow> py_error + json" where
  "dict_get (JDict kvs) k = Inr (case map_of kvs k of None \<Rightarrow> JNull | Some v \<Rightarrow> v)"
| "dict_get _ k = Inl AttributeError"

text \<open>\<^verbatim>\<open>len(x)\<close>, \<^verbatim>\<open>for q in x\<close>, \<^verbatim>\<open>x[0]\<close>, \<^verbatim>\<open>x[:n]\<close> and \<^verbatim>\<open>reversed(x)\<close>.\<close>

fun py_len :: "json \<Rightarrow> py_error + nat" where
  "py_len (JList xs) = Inr (length xs)"
| "py_len (JStr s) = Inr (length s)"
| "py_len (JDict kvs) = Inr (length kvs)"
| "py_len _ = Inl TypeError"

fun py_iter :: "json \<Rightarrow> py_error + json list" where
  "py_iter (JList xs) = Inr xs"
| "py_iter (JStr s) = Inr (map (\<lambda>c. JStr [c]) s)"
| "py_iter (JDict kvs) = Inr (map (\<lambda>kv. JStr (fst kv)) kvs)"
| "py_iter _ = Inl TypeError"

fun py_index0 :: "json \<Rightarrow> py_error + json" where
  "py_index0 (JList []) = Inl IndexError"
| "py_index0 (JList (x # xs)) = Inr x"
| "py_index0 (JStr []) = Inl IndexError"
| "py_index0 (JStr (c # s)) = Inr (JStr [c])"
| "py_index0 (JDict kvs) = Inl KeyError"
| "py_index0 _ = Inl TypeError"

fun py_take :: "nat \<Rightarrow> json \<Rightarrow> py_error + json" where
  "py_take n (JList xs) = Inr (JList (take n xs))"
| "py_take n (JStr s) = Inr (JStr (take n s))"
| "py_take n _ = Inl TypeError"

fun py_reversed :: "json \<Rightarrow> py_error + json list" where
  "py_reversed (JList xs) = Inr (rev xs)"
| "py_reversed (JStr s) = Inr (map (\<lambda>c. JStr [c]) (rev s))"
| "py_reversed (JDict kvs) = Inr (map (\<lambda>kv. JStr (fst kv)) (rev kvs))"
| "py_reversed _ = Inl TypeError"

text \<open>A number as Python arithmetic sees it: a bool counts as 0 or 1.\<close>

fun num_of :: "json \<Rightarrow> rat option" where
  "num_of (JNum x) = Some x"
| "num_of (JBool b) = Some (if b then 1 else 0)"
| "num_of _ = None"

text \<open>
  \<^verbatim>\<open>float(v)\<close>. Parsing the text of a string is Python's own; it is the parameter
  \<open>parse\<close> (\<open>None\<close> where \<^verbatim>\<open>float\<close> raises \<^verbatim>\<open>ValueError\<close>).
\<close>

fun py_float :: "(string \<Rightarrow> rat option) \<Rightarrow> json \<Rightarrow> py_error + rat" where
  "py_float parse (JNum x) = Inr x"
| "py_float parse (JBool b) = Inr (if b then 1 else 0)"
| "py_float parse (JStr s) = (case parse s of None \<Rightarrow> Inl ValueError | Some x \<Rightarrow> Inr x)"
| "py_float parse _ = Inl TypeError"

text \<open>\<^verbatim>\<open>acc + x\<close> with a number on the left, as \<^verbatim>\<open>sum\<close> does starting from 0.\<close>

definition py_add :: "rat \<Rightarrow> json \<Rightarrow> py_error + rat" where
  "py_add acc x = (case num_of x of None \<Rightarrow> Inl TypeError | Some y \<Rightarrow> Inr (acc + y))"

text \<open>
  Ordering comparisons. Numbers compare by value, strings by code points, a number with
  a string raises \<^verbatim>\<open>TypeError\<close>, as does anything with \<^verbatim>\<open>None\<close> or a dict. Python compares
  two lists element by element; that comparison is the parameter \<open>cmp_lists\<close>.
\<close>

datatype cmp = CLt | CEq | CGt

fun str_cmp :: "string \<Rightarrow> string \<Rightarrow> cmp" where
  "str_cmp [] [] = CEq"
| "str_cmp [] (d # t) = CLt"
| "str_cmp (c # s) [] = CGt"
| "str_cmp (c # s) (d # t) =
     (if (of_char c :: nat) < of_char d then CLt
      else if (of_char d :: nat) < of_char c then CGt
      else str_cmp s t)"

definition rat_cmp :: "rat \<Rightarrow> rat \<Rightarrow> cmp" where
  "rat_cmp x y = (if x < y then CLt else if y < x then CGt else CEq)"

fun py_cmp :: "(json list \<Rightarrow> json list \<Rightarrow> py_error + cmp) \<Rightarrow> json \<Rightarrow> json \<Rightarrow> py_error + cmp" where
  "py_cmp cmp_lists (JStr s) (JStr t) = Inr (str_cmp s t)"
| "py_cmp cmp_lists (JList xs) (JList ys) = cmp_lists xs ys"
| "py_cmp cmp_lists x y =
     (case (num_of x, num_of y) of
        (Some a, Some b) \<Rightarrow> Inr (rat_cmp a b)
      | _ \<Rightarrow> Inl TypeError)"

definition py_gt :: "(json list \<Rightarrow> json list \<Rightarrow> py_error + cmp) \<Rightarrow> json \<Rightarrow> json \<Rightarrow> py_error + bool" where
  "py_gt cl x y = bind_err (py_cmp cl x y) (\<lambda>c. Inr (c = CGt))"

definition py_ge :: "(json list \<Rightarrow> json list \<Rightarrow> py_error + cmp) \<Rightarrow> json \<Rightarrow> json \<Rightarrow> py_error + bool" where
  "py_ge cl x y = bind_err (py_cmp cl x y) (\<lambda>c. Inr (c \<noteq> CLt))"

definition py_le :: "(json list \<Rightarrow> json list \<Rightarrow> py_error + cmp) \<Rightarrow> json \<Rightarrow> json \<Rightarrow> py_error + bool" where
  "py_le cl x y = bind_err (py_cmp cl x y) (\<lambda>c. Inr (c \<noteq> CGt))"

text \<open>String predicates of \<^verbatim>\<open>list_symbols\<close>.\<close>

definition endswith :: "string \<Rightarrow> string \<Rightarrow> bool" where
  "endswith s x = (length x \<le> length s \<and> drop (length s - length x) s = x)"

definition is_alpha_char :: "char \<Rightarrow> bool" where
  "is_alpha_char c =
     (let n = (of_char c :: nat) in (65 \<le> n \<and> n \<le> 90) \<or> (97 \<le> n \<and> n \<le> 122))"

definition isalpha :: "string \<Rightarrow> bool" where
  "isalpha s = (s \<noteq> [] \<and> list_all is_alpha_char s)"

section \<open>The provider client\<close>

text \<open>
  What the program cannot see from inside is a record \<open>world\<close>: the process
  environment, the provider behind \<^verbatim>\<open>S.get\<close>, and the two Python built-ins left as
  parameters above. \<open>S_get w url params a\<close> is the outcome of the request number \<open>a\<close>
  (counted from 0) that one call of \<^verbatim>\<open>fmp_get\<close> sends to \<open>url\<close>: an exception of the
  HTTP library, or a response with its status and what \<^verbatim>\<open>r.json()\<close> gives.
  The rate limiter and \<^verbatim>\<open>time.sleep\<close> only delay and are left out.
\<close>

record response =
  status_code :: nat
  body :: "py_error + json"

record world =
  environ :: "string \<rightharpoonup> string"
  S_get :: "string \<Rightarrow> (string \<rightharpoonup> json) \<Rightarrow> nat \<Rightarrow> py_error + response"
  float_of_str :: "string \<Rightarrow> rat option"
  cmp_lists :: "json list \<Rightarrow> json list \<Rightarrow> py_error + cmp"

definition os_getenv :: "world \<Rightarrow> string \<Rightarrow> string \<Rightarrow> string" where
  "os_getenv w k dflt = (case environ w k of None \<Rightarrow> dflt | Some v \<Rightarrow> v)"

definition FMP_BASE :: string where
  "FMP_BASE = ''https://financialmodelingprep.com/api/v3''"

text \<open>\<^verbatim>\<open>r.raise_for_status()\<close> raises for the statuses 400 to 599.\<close>

definition raise_for_status :: "response \<Rightarrow> py_error + unit" where
  "raise_for_status r =
     (if 400 \<le> status_code r \<and> status_code r < 600 then Inl HTTPError else Inr ())"

text \<open>
  The loop \<^verbatim>\<open>for a in range(retries)\<close> of \<^verbatim>\<open>fmp_get\<close>: \<open>a\<close> is the loop variable and the
  last argument counts the iterations left.
\<close>

fun fmp_get_loop :: "world \<Rightarrow> string \<Rightarrow> (string \<rightharpoonup> json) \<Rightarrow> nat \<Rightarrow> nat \<Rightarrow> py_error + json" where
  "fmp_get_loop w url params a 0 = Inl HTTPError"
| "fmp_get_loop w url params a (Suc n) =
     bind_err (S_get w url params a) (\<lambda>r.
       if status_code r = 429 then fmp_get_loop w url params (Suc a) n
       else bind_err (raise_for_status r) (\<lambda>_. body r))"

definition fmp_get :: "world \<Rightarrow> string \<Rightarrow> (string \<rightharpoonup> json) \<Rightarrow> py_error + json" where
  "fmp_get w path params =
     (let api_key = os_getenv w ''FMP_API_KEY'' '''' in
      if api_key = [] then Inl RuntimeError
      else fmp_get_loop w (FMP_BASE @ path) (params(''apikey'' \<mapsto> JStr api_key)) 0 3)"

text \<open>\<^verbatim>\<open>fmp_get(...) or []\<close>.\<close>

definition fmp_get_or_empty :: "world \<Rightarrow> string \<Rightarrow> (string \<rightharpoonup> json) \<Rightarrow> py_error + json" where
  "fmp_get_or_empty w path params =
     bind_err (fmp_get w path params) (\<lambda>j. Inr (py_or j (JList [])))"

section \<open>The symbol universe\<close>

text \<open>
  The test of one screener row in \<^verbatim>\<open>list_symbols\<close>. The conjunction is evaluated from the
  left and stops at the first false operand, so the comparison of the market cap with
  the threshold, the only operand after \<^verbatim>\<open>r.get\<close> that can raise, is reached only by a row
  that passed every other filter.
\<close>

definition keep_row :: "world \<Rightarrow> rat \<Rightarrow> string list option \<Rightarrow> json \<Rightarrow> py_error + bool" where
  "keep_row w min_mcap countries r =
     bind_err (dict_get r ''symbol'') (\<lambda>sym.
     bind_err (dict_get r ''marketCap'') (\<lambda>m.
       let mcap = py_or m (JNum 0) in
       case sym of
         JStr s \<Rightarrow>
           if s \<noteq> []
              \<and> (case countries of
                    None \<Rightarrow> True
                  | Some cs \<Rightarrow> (case dict_get r ''country'' of
                                 Inr (JStr c) \<Rightarrow> c \<in> set cs
                               | _ \<Rightarrow> False))
              \<and> \<not> list_ex (endswith s) [''WT'', ''WS'', ''PR'']
              \<and> CHR ''-'' \<notin> set s
              \<and> isalpha s
              \<and> length s \<le> 5
           then py_ge (cmp_lists w) mcap (JNum min_mcap)
           else Inr False
       | _ \<Rightarrow> Inr False))"

fun filter_rows :: "world \<Rightarrow> rat \<Rightarrow> string list option \<Rightarrow> json list \<Rightarrow> py_error + json list" where
  "filter_rows w min_mcap countries [] = Inr []"
| "filter_rows w min_mcap countries (r # rs) =
     bind_err (keep_row w min_mcap countries r) (\<lambda>k.
     bind_err (filter_rows w min_mcap countries rs) (\<lambda>filtered.
       Inr (if k then r # filtered else filtered)))"

definition screener_params :: "string \<Rightarrow> (string \<rightharpoonup> json)" where
  "screener_params ex =
     [''exchange'' \<mapsto> JStr ex, ''isEtf'' \<mapsto> JBool False, ''isFund'' \<mapsto> JBool False,
      ''isActivelyTrading'' \<mapsto> JBool True, ''limit'' \<mapsto> JNum 10000]"

definition list_symbols :: "world \<Rightarrow> string \<Rightarrow> rat \<Rightarrow> string list option \<Rightarrow> py_error + json list" where
  "list_symbols w ex min_mcap countries =
     bind_err (fmp_get_or_empty w ''/stock-screener'' (screener_params ex)) (\<lambda>rows.
     bind_err (py_iter rows) (\<lambda>rs. filter_rows w min_mcap countries rs))"

section \<open>Fundamentals of one company\<close>

definition fmp_profile :: "world \<Rightarrow> string \<Rightarrow> py_error + json" where
  "fmp_profile w tk =
     bind_err (fmp_get_or_empty w (''/profile/'' @ tk) Map.empty) (\<lambda>prof.
       Inr (case prof of JList (p # ps) \<Rightarrow> p | _ \<Rightarrow> JDict []))"

definition fmp_income :: "world \<Rightarrow> string \<Rightarrow> bool \<Rightarrow> py_error + json" where
  "fmp_income w tk annual =
     (if annual
      then fmp_get_or_empty w (''/income-statement/'' @ tk)
             [''period'' \<mapsto> JStr ''annual'', ''limit'' \<mapsto> JNum 1]
      else fmp_get_or_empty w (''/income-statement/'' @ tk)
             [''period'' \<mapsto> JStr ''quarter'', ''limit'' \<mapsto> JNum 4])"

definition fmp_balance :: "world \<Rightarrow> string \<Rightarrow> py_error + json" where
  "fmp_balance w tk =
     fmp_get_or_empty w (''/balance-sheet-statement/'' @ tk)
       [''period'' \<mapsto> JStr ''quarter'', ''limit'' \<mapsto> JNum 1]"

text \<open>
  \<^verbatim>\<open>_latest\<close> and \<^verbatim>\<open>_first_available\<close> (an Isabelle name cannot start with an underscore).
  \<^verbatim>\<open>v in (None, "")\<close> holds for \<^verbatim>\<open>None\<close> and for the empty string only.
\<close>

definition latest :: "world \<Rightarrow> json \<Rightarrow> string \<Rightarrow> py_error + rat option" where
  "latest w items field =
     (if \<not> truthy items then Inr None
      else bind_err (py_index0 items) (\<lambda>it.
           bind_err (dict_get it field) (\<lambda>v.
             if v = JNull \<or> v = JStr [] then Inr None
             else bind_err (py_float (float_of_str w) v) (\<lambda>x. Inr (Some x)))))"

fun first_available_loop :: "world \<Rightarrow> json \<Rightarrow> string list \<Rightarrow> py_error + rat option" where
  "first_available_loop w items [] = Inr None"
| "first_available_loop w items (f # fs) =
     bind_err (py_index0 items) (\<lambda>it.
     bind_err (dict_get it f) (\<lambda>v.
       if v \<noteq> JNull \<and> v \<noteq> JStr []
       then (case py_float (float_of_str w) v of Inl e \<Rightarrow> Inr None | Inr x \<Rightarrow> Inr (Some x))
       else first_available_loop w items fs))"

definition first_available :: "world \<Rightarrow> json \<Rightarrow> string list \<Rightarrow> py_error + rat option" where
  "first_available w items flds =
     (if \<not> truthy items then Inr None else first_available_loop w items flds)"

text \<open>\<^verbatim>\<open>sum(q.get("operatingIncome") or 0 for q in qs)\<close>, with the running total.\<close>

fun sum_income :: "json list \<Rightarrow> rat \<Rightarrow> py_error + rat" where
  "sum_income [] acc = Inr acc"
| "sum_income (q # qs) acc =
     bind_err (dict_get q ''operatingIncome'') (\<lambda>v.
     bind_err (py_add acc (py_or v (JNum 0))) (\<lambda>acc'. sum_income qs acc'))"

text \<open>
  The trailing-twelve-months EBIT of \<^verbatim>\<open>pull_company\<close>: the \<^verbatim>\<open>if\<close>/\<^verbatim>\<open>elif\<close>/\<^verbatim>\<open>else\<close> of
  lines 277 to 283, which lines 288 to 293 repeat.
\<close>

definition ebit_ttm :: "json \<Rightarrow> py_error + rat option" where
  "ebit_ttm inc =
     (if \<not> truthy inc then Inr None
      else bind_err (py_len inc) (\<lambda>n.
        if 4 \<le> n
        then bind_err (py_take 4 inc) (\<lambda>hd4.
             bind_err (py_iter hd4) (\<lambda>qs.
             bind_err (sum_income qs 0) (\<lambda>s. Inr (Some s))))
        else bind_err (py_iter inc) (\<lambda>qs.
             bind_err (sum_income qs 0) (\<lambda>s.
             bind_err (py_len inc) (\<lambda>m. Inr (Some (s * (4 / of_nat m))))))))"

definition EXCLUDE_SECTORS :: "string list" where
  "EXCLUDE_SECTORS =
     [''Financial Services'', ''Financial'', ''Banks'', ''Insurance'', ''Utilities'',
      ''Utility'', ''Real Estate'', ''Real Estate Investment Trust'', ''REIT'']"

text \<open>\<^verbatim>\<open>x in EXCLUDE_SECTORS\<close>: membership in a set hashes \<open>x\<close>, and a list or a dict has no hash.\<close>

fun in_exclude_sectors :: "json \<Rightarrow> py_error + bool" where
  "in_exclude_sectors (JStr s) = Inr (s \<in> set EXCLUDE_SECTORS)"
| "in_exclude_sectors (JList xs) = Inl TypeError"
| "in_exclude_sectors (JDict kvs) = Inl TypeError"
| "in_exclude_sectors _ = Inr False"

text \<open>The market cap of the profile, lines 304 to 308; the \<^verbatim>\<open>try\<close> there turns a failing \<^verbatim>\<open>float\<close> into \<^verbatim>\<open>None\<close>.\<close>

definition profile_mcap :: "world \<Rightarrow> json \<Rightarrow> py_error + rat option" where
  "profile_mcap w prof =
     bind_err (dict_get prof ''mktCap'') (\<lambda>a.
     bind_err (if a \<noteq> JNull then Inr a else dict_get prof ''marketCap'') (\<lambda>m.
       Inr (if m = JNull then None
            else (case py_float (float_of_str w) m of Inl e \<Rightarrow> None | Inr x \<Rightarrow> Some x))))"

record fin_record =
  ticker :: string
  name :: json
  exchange :: json
  country :: json
  sector :: json
  industry :: json
  marketCap :: rat
  EV :: rat
  EBIT :: rat
  NWC :: rat
  PPE_Net :: rat
  Capital :: rat
  Cash :: rat
  TotalDebt :: rat
  EY :: rat
  ROC :: rat

text \<open>
  Lines 329 to 381 of \<^verbatim>\<open>pull_company\<close>, reached when all seven inputs are present: the
  enterprise value, the capital, the two ratios, the sanity filters and the returned dict.
  \<open>info\<close> holds the five descriptive fields read from the profile.
\<close>

definition build_record ::
  "string \<Rightarrow> json \<times> json \<times> json \<times> json \<times> json \<Rightarrow> rat \<Rightarrow> rat \<Rightarrow> rat \<Rightarrow> rat \<Rightarrow> rat \<Rightarrow> rat \<Rightarrow> rat
     \<Rightarrow> fin_record option" where
  "build_record symb info ebit tca tcl ppe cash debt mcap =
     (let ev = mcap + debt - cash;
          nwc0 = (tca - cash) - (tcl - debt);
          nwc = max nwc0 0;
          capital = nwc + ppe
      in if ev \<le> 0 then None
         else if capital \<le> 0 then None
         else
           let ey = ebit / ev;
               roc0 = ebit / capital;
               roc = (if roc0 > 1 then 1 else roc0)
           in if ey > 1 / 2 then None
              else if capital < 10000000 then None
              else (case info of (nm, exch, ctry, sect, ind) \<Rightarrow>
                Some \<lparr>ticker = symb, name = nm, exchange = exch, country = ctry,
                      sector = sect, industry = ind, marketCap = mcap, EV = ev, EBIT = ebit,
                      NWC = nwc, PPE_Net = ppe, Capital = capital, Cash = cash,
                      TotalDebt = debt, EY = ey, ROC = roc\<rparr>))"

definition profile_info :: "json \<Rightarrow> py_error + json \<times> json \<times> json \<times> json \<times> json" where
  "profile_info prof =
     bind_err (dict_get prof ''companyName'') (\<lambda>n1.
     bind_err (if truthy n1 then Inr n1 else dict_get prof ''company'') (\<lambda>n2.
     bind_err (if truthy n2 then Inr n2 else dict_get prof ''symbol'') (\<lambda>nm.
     bind_err (dict_get prof ''exchangeShortName'') (\<lambda>exch.
     bind_err (dict_get prof ''country'') (\<lambda>ctry.
     bind_err (dict_get prof ''sector'') (\<lambda>sect.
     bind_err (dict_get prof ''industry'') (\<lambda>ind.
       Inr (nm, exch, ctry, sect, ind))))))))"

text \<open>
  The body of the \<^verbatim>\<open>try\<close> of \<^verbatim>\<open>pull_company\<close>. EBIT is computed twice, as in the source:
  the first computation (lines 277 to 283) is overwritten by the second (lines 286 to
  293), but it runs, and what it raises leaves the function. The debugging \<^verbatim>\<open>print\<close> of
  the missing fields is left out.
\<close>

definition pull_company_try :: "world \<Rightarrow> string \<Rightarrow> bool \<Rightarrow> py_error + fin_record option" where
  "pull_company_try w symb annual =
     bind_err (fmp_profile w symb) (\<lambda>prof.
       if \<not> truthy prof then Inr None
       else
     bind_err (dict_get prof ''sector'') (\<lambda>sect.
     bind_err (in_exclude_sectors sect) (\<lambda>excluded.
       if excluded then Inr None
       else
     bind_err (fmp_income w symb annual) (\<lambda>inc.
     bind_err (fmp_balance w symb) (\<lambda>bal.
     bind_err (ebit_ttm inc) (\<lambda>ebit_first.
     bind_err (if annual then latest w inc ''operatingIncome'' else ebit_ttm inc) (\<lambda>ebit.
     bind_err (latest w bal ''totalCurrentAssets'') (\<lambda>tca.
     bind_err (latest w bal ''totalCurrentLiabilities'') (\<lambda>tcl.
     bind_err (latest w bal ''propertyPlantEquipmentNet'') (\<lambda>ppe.
     bind_err (latest w bal ''cashAndShortTermInvestments'') (\<lambda>cash.
     bind_err (first_available w bal [''totalDebt'', ''shortTermDebt'', ''longTermDebt'']) (\<lambda>debt.
     bind_err (profile_mcap w prof) (\<lambda>mcap.
       case (ebit, tca, tcl, ppe, cash, debt, mcap) of
         (Some e, Some a, Some l, Some p, Some c, Some d, Some m) \<Rightarrow>
           bind_err (profile_info prof) (\<lambda>info. Inr (build_record symb info e a l p c d m))
       | _ \<Rightarrow> Inr None)))))))))))))"

text \<open>\<^verbatim>\<open>except Exception: return None\<close>.\<close>

definition pull_company :: "world \<Rightarrow> string \<Rightarrow> bool \<Rightarrow> fin_record option" where
  "pull_company w symb annual =
     (case pull_company_try w symb annual of Inl e \<Rightarrow> None | Inr r \<Rightarrow> r)"



section \<open>Health checks\<close>

text \<open>
  A debt-to-equity ratio is a number or \<^verbatim>\<open>float('inf')\<close>, which the source assigns when the
  equity is not positive.
\<close>

datatype ratio = Fin rat | PosInf

fun ratio_ge :: "ratio \<Rightarrow> ratio \<Rightarrow> bool" where
  "ratio_ge PosInf y = True"
| "ratio_ge (Fin a) PosInf = False"
| "ratio_ge (Fin a) (Fin b) = (b \<le> a)"

definition py_div :: "json \<Rightarrow> json \<Rightarrow> py_error + rat" where
  "py_div x y =
     (case (num_of x, num_of y) of
        (Some a, Some b) \<Rightarrow> if b = 0 then Inl ZeroDivisionError else Inr (a / b)
      | _ \<Rightarrow> Inl TypeError)"

fun map_err :: "('a \<Rightarrow> py_error + 'b) \<Rightarrow> 'a list \<Rightarrow> py_error + 'b list" where
  "map_err f [] = Inr []"
| "map_err f (x # xs) =
     bind_err (f x) (\<lambda>y. bind_err (map_err f xs) (\<lambda>ys. Inr (y # ys)))"

text \<open>One iteration of the loop that fills \<^verbatim>\<open>de_ratios\<close>.\<close>

definition de_ratio :: "world \<Rightarrow> json \<Rightarrow> py_error + ratio" where
  "de_ratio w q =
     bind_err (dict_get q ''totalStockholdersEquity'') (\<lambda>e.
     bind_err (dict_get q ''totalDebt'') (\<lambda>d.
       let equity = py_or e (JNum 0); debt = py_or d (JNum 0) in
       bind_err (py_gt (cmp_lists w) equity (JNum 0)) (\<lambda>pos.
         if pos then bind_err (py_div debt equity) (\<lambda>x. Inr (Fin x)) else Inr PosInf)))"

definition revenue_of :: "json \<Rightarrow> py_error + json" where
  "revenue_of q = bind_err (dict_get q ''revenue'') (\<lambda>v. Inr (py_or v (JNum 0)))"

text \<open>
  \<^verbatim>\<open>all(xs[i] >= xs[i+1] for i in range(len(xs)-1))\<close> and the same with \<^verbatim>\<open>\<le>\<close> on the
  revenues; \<^verbatim>\<open>all\<close> stops at the first false comparison, so a later comparison that
  would raise is not made.
\<close>

fun de_decreasing :: "ratio list \<Rightarrow> bool" where
  "de_decreasing (x # y # zs) = (ratio_ge x y \<and> de_decreasing (y # zs))"
| "de_decreasing _ = True"

fun rev_increasing :: "world \<Rightarrow> json list \<Rightarrow> py_error + bool" where
  "rev_increasing w (x # y # zs) =
     bind_err (py_le (cmp_lists w) x y) (\<lambda>b.
       if b then rev_increasing w (y # zs) else Inr False)"
| "rev_increasing w _ = Inr True"

definition statement_params :: "int \<Rightarrow> (string \<rightharpoonup> json)" where
  "statement_params n = [''period'' \<mapsto> JStr ''quarter'', ''limit'' \<mapsto> JNum (of_int n)]"

text \<open>The body of the first \<^verbatim>\<open>try\<close>: the value stored under \<^verbatim>\<open>debt_revenue_check\<close>.\<close>

definition debt_revenue_try :: "world \<Rightarrow> string \<Rightarrow> int \<Rightarrow> py_error + bool option" where
  "debt_revenue_try w symb debt_revenue_quarters =
     bind_err (fmp_get w (''/balance-sheet-statement/'' @ symb)
                 (statement_params debt_revenue_quarters)) (\<lambda>bs_data.
     bind_err (fmp_get w (''/income-statement/'' @ symb)
                 (statement_params debt_revenue_quarters)) (\<lambda>is_data.
     bind_err (if truthy bs_data \<and> truthy is_data
               then bind_err (py_len bs_data) (\<lambda>n.
                      if 3 \<le> n then bind_err (py_len is_data) (\<lambda>m. Inr (3 \<le> m))
                      else Inr False)
               else Inr False) (\<lambda>enough.
       if enough
       then bind_err (py_reversed bs_data) (\<lambda>bs.
            bind_err (map_err (de_ratio w) bs) (\<lambda>de_ratios.
            bind_err (py_reversed is_data) (\<lambda>qs.
            bind_err (map_err revenue_of qs) (\<lambda>revenues.
            bind_err (rev_increasing w revenues) (\<lambda>ri.
              Inr (Some (de_decreasing de_ratios \<and> ri)))))))
       else Inr None)))"

fun ocf_beats_ni :: "world \<Rightarrow> json list \<Rightarrow> py_error + bool" where
  "ocf_beats_ni w [] = Inr True"
| "ocf_beats_ni w (q # qs) =
     bind_err (dict_get q ''operatingCashFlow'') (\<lambda>ocf.
     bind_err (dict_get q ''netIncome'') (\<lambda>ni.
     bind_err (py_gt (cmp_lists w) (py_or ocf (JNum 0)) (py_or ni (JNum 0))) (\<lambda>b.
       if b then ocf_beats_ni w qs else Inr False)))"

text \<open>The body of the second \<^verbatim>\<open>try\<close>: the value stored under \<^verbatim>\<open>cashflow_quality_check\<close>.\<close>

definition cashflow_try :: "world \<Rightarrow> string \<Rightarrow> int \<Rightarrow> py_error + bool option" where
  "cashflow_try w symb cashflow_quarters =
     bind_err (fmp_get w (''/cash-flow-statement/'' @ symb)
                 (statement_params cashflow_quarters)) (\<lambda>cf_data.
     bind_err (if truthy cf_data then bind_err (py_len cf_data) (\<lambda>n. Inr (4 \<le> n))
               else Inr False) (\<lambda>enough.
       if enough
       then bind_err (py_iter cf_data) (\<lambda>qs.
            bind_err (ocf_beats_ni w qs) (\<lambda>b. Inr (Some b)))
       else Inr None))"

text \<open>
  The dict \<^verbatim>\<open>results\<close>. A check has three values and its key may be absent: \<open>None\<close> is
  an absent key, \<open>Some None\<close> the value \<^verbatim>\<open>None\<close> (unknown), \<open>Some (Some b)\<close> the bool \<open>b\<close>.
\<close>

record health_result =
  symbol :: string
  passes_all :: bool
  debt_revenue_check :: "bool option option"
  cashflow_quality_check :: "bool option option"

definition except_none :: "py_error + bool option \<Rightarrow> bool option" where
  "except_none m = (case m of Inl e \<Rightarrow> None | Inr v \<Rightarrow> v)"

definition check_financial_health ::
  "world \<Rightarrow> string \<Rightarrow> bool \<Rightarrow> bool \<Rightarrow> int \<Rightarrow> int \<Rightarrow> health_result" where
  "check_financial_health w symb check_debt_revenue check_cashflow_quality
       debt_revenue_quarters cashflow_quarters =
     (let results = \<lparr>symbol = symb, passes_all = True,
                     debt_revenue_check = None, cashflow_quality_check = None\<rparr>;
          results =
            (if check_debt_revenue
             then (let r1 = results\<lparr>debt_revenue_check :=
                              Some (except_none (debt_revenue_try w symb debt_revenue_quarters))\<rparr>
                   in if debt_revenue_check r1 = Some (Some False)
                      then r1\<lparr>passes_all := False\<rparr> else r1)
             else results);
          results =
            (if check_cashflow_quality
             then (let r2 = results\<lparr>cashflow_quality_check :=
                              Some (except_none (cashflow_try w symb cashflow_quarters))\<rparr>
                   in if cashflow_quality_check r2 = Some (Some False)
                      then r2\<lparr>passes_all := False\<rparr> else r2)
             else results)
      in results)"

section \<open>The result cache\<close>

text \<open>
  The directory \<^verbatim>\<open>cache\<close>: a file has a modification time and holds a record (the
  model takes \<^verbatim>\<open>json.dumps\<close> followed by \<^verbatim>\<open>json.loads\<close> as the identity on records).
  \<open>disk_ok\<close> says whether a write succeeds; \<^verbatim>\<open>write_text\<close> raises \<^verbatim>\<open>OSError\<close> when it does not.
  The reading of the clock is the argument \<open>now\<close>, in seconds.
\<close>

record cache_file =
  st_mtime :: rat
  content :: fin_record

record cache_dir =
  files :: "string \<rightharpoonup> cache_file"
  disk_ok :: bool

definition write_text :: "cache_dir \<Rightarrow> string \<Rightarrow> fin_record \<Rightarrow> rat \<Rightarrow> py_error + cache_dir" where
  "write_text c path r now =
     (if disk_ok c then Inr (c\<lparr>files := (files c)(path \<mapsto> \<lparr>st_mtime = now, content = r\<rparr>)\<rparr>)
      else Inl OSError)"

definition week_seconds :: rat where
  "week_seconds = 7 * 24 * 3600"

definition pull_company_cached ::
  "world \<Rightarrow> cache_dir \<Rightarrow> rat \<Rightarrow> string \<Rightarrow> bool \<Rightarrow> (py_error + fin_record option) \<times> cache_dir" where
  "pull_company_cached w c now symb annual =
     (let path = symb @ ''.json'';
          miss = (case pull_company w symb annual of
                    None \<Rightarrow> (Inr None, c)
                  | Some r \<Rightarrow> (case write_text c path r now of
                                Inl e \<Rightarrow> (Inl e, c)
                              | Inr c' \<Rightarrow> (Inr (Some r), c')))
      in case files c path of
           None \<Rightarrow> miss
         | Some f \<Rightarrow> if now - st_mtime f < week_seconds then (Inr (Some (content f)), c)
                     else miss)"


section \<open>Ranking\<close>

text \<open>
  A row of the data frame: the columns \<^verbatim>\<open>EY\<close> and \<^verbatim>\<open>ROC\<close>, where \<open>None\<close> is a missing
  value (\<^verbatim>\<open>NaN\<close> or \<^verbatim>\<open>None\<close>), and the other columns in \<open>cols\<close>. A ranked row is the row
  with the three columns that \<^verbatim>\<open>magic_formula_rank\<close> adds.
\<close>

record 'a frame_row =
  cols :: 'a
  col_EY :: "rat option"
  col_ROC :: "rat option"

record 'a ranked =
  row :: "'a frame_row"
  EY_rank :: nat
  ROC_rank :: nat
  MF_score :: nat

text \<open>\<^verbatim>\<open>df.dropna(subset=["EY", "ROC"])\<close>: the rows that have both values, with the values.\<close>

definition present :: "'a frame_row \<Rightarrow> ('a frame_row \<times> rat \<times> rat) option" where
  "present r =
     (case (col_EY r, col_ROC r) of (Some e, Some c) \<Rightarrow> Some (r, e, c) | _ \<Rightarrow> None)"

definition dropna :: "'a frame_row list \<Rightarrow> ('a frame_row \<times> rat \<times> rat) list" where
  "dropna df = List.map_filter present df"

text \<open>
  \<^verbatim>\<open>Series.rank(ascending=False, method="min")\<close> of pandas on a column without missing
  values: the values are sorted in descending order, and the rank of a value is the
  position, counted from 1, of the first member of its group of equal values.
\<close>

definition rank_desc_min :: "rat list \<Rightarrow> nat list" where
  "rank_desc_min vs =
     (let s = rev (sort vs) in map (\<lambda>v. Suc (length (takeWhile (\<lambda>u. u \<noteq> v) s))) vs)"

definition sort_keys :: "'a ranked \<Rightarrow> nat \<times> nat \<times> nat" where
  "sort_keys x = (MF_score x, EY_rank x, ROC_rank x)"

text \<open>
  \<^verbatim>\<open>sort_values\<close> on several columns is a stable lexicographic sort, as \<open>sort_key\<close> is on
  the triple of the three columns.
\<close>

definition magic_formula_rank :: "'a frame_row list \<Rightarrow> 'a ranked list" where
  "magic_formula_rank df =
     (let kept = dropna df;
          ey_rank = rank_desc_min (map (\<lambda>(r, e, c). e) kept);
          roc_rank = rank_desc_min (map (\<lambda>(r, e, c). c) kept);
          ranked_rows = map (\<lambda>((r, e, c), er, rr).
                          \<lparr>row = r, EY_rank = er, ROC_rank = rr, MF_score = er + rr\<rparr>)
                        (zip kept (zip ey_rank roc_rank))
      in sort_key sort_keys ranked_rows)"

text \<open>
  For the statements about the ranking: a row is complete when it has both values, and
  \<open>exceeds v x\<close> says that the column value \<open>x\<close> is present and strictly greater than \<open>v\<close>.
  The competition rank of \<open>v\<close> is one more than the number of complete rows that exceed
  it.
\<close>

definition complete_row :: "'a frame_row \<Rightarrow> bool" where
  "complete_row r = (col_EY r \<noteq> None \<and> col_ROC r \<noteq> None)"

definition exceeds :: "rat \<Rightarrow> rat option \<Rightarrow> bool" where
  "exceeds v x = (case x of None \<Rightarrow> False | Some u \<Rightarrow> v < u)"

definition competition_rank :: "('a frame_row \<Rightarrow> rat option) \<Rightarrow> 'a frame_row list \<Rightarrow> rat \<Rightarrow> nat" where
  "competition_rank col df v = Suc (length (filter (\<lambda>r. complete_row r \<and> exceeds v (col r)) df))"

section \<open>The scan\<close>

text \<open>
  \<^verbatim>\<open>main\<close> after the parsing of the command line: \<open>arg_exchanges\<close> and \<open>arg_countries\<close>
  are the lists \<^verbatim>\<open>exchanges\<close> and \<^verbatim>\<open>countries\<close> of lines 435 to 443. The CSV file, the
  notification and the printing are left out; the result is the frame \<^verbatim>\<open>out\<close>, or \<open>None\<close>
  when there is no qualifying record. \<open>shuffle\<close> is what \<^verbatim>\<open>random.shuffle\<close> does to the list.
\<close>

record args =
  arg_exchanges :: "string list"
  arg_countries :: "string list"
  arg_min_mcap :: rat
  arg_limit :: int
  arg_top :: int
  arg_random :: bool
  arg_annual :: bool

text \<open>
  The inner loop of lines 449 to 452. A row that \<^verbatim>\<open>list_symbols\<close> returns has a non-empty
  string under \<^verbatim>\<open>symbol\<close> (lemma \<open>list_symbols_symbol\<close>), which is then the value of
  \<^verbatim>\<open>sym\<close>; the model skips any other value.
\<close>

fun row_symbols :: "json list \<Rightarrow> py_error + string list" where
  "row_symbols [] = Inr []"
| "row_symbols (r # rs) =
     bind_err (dict_get r ''symbol'') (\<lambda>s1.
     bind_err (if truthy s1 then Inr s1 else dict_get r ''displaySymbol'') (\<lambda>sym.
     bind_err (row_symbols rs) (\<lambda>rest.
       Inr (case sym of JStr s \<Rightarrow> (if s \<noteq> [] then s # rest else rest) | _ \<Rightarrow> rest))))"

fun collect_symbols :: "world \<Rightarrow> rat \<Rightarrow> string list \<Rightarrow> string list \<Rightarrow> py_error + string list" where
  "collect_symbols w min_mcap countries [] = Inr []"
| "collect_symbols w min_mcap countries (ex # exs) =
     bind_err (list_symbols w ex min_mcap (Some countries)) (\<lambda>rows.
     bind_err (row_symbols rows) (\<lambda>syms.
     bind_err (collect_symbols w min_mcap countries exs) (\<lambda>rest. Inr (syms @ rest))))"

text \<open>\<^verbatim>\<open>list(dict.fromkeys(symbols))\<close>: the first occurrence of each symbol, in order.\<close>

definition dedup :: "string list \<Rightarrow> string list" where
  "dedup xs = fold (\<lambda>x seen. if x \<in> set seen then seen else seen @ [x]) xs []"

text \<open>\<^verbatim>\<open>xs[:n]\<close> and \<^verbatim>\<open>head(n)\<close>: a negative \<open>n\<close> leaves out the last \<open>-n\<close> elements.\<close>

definition slice_to :: "int \<Rightarrow> 'a list \<Rightarrow> 'a list" where
  "slice_to n xs = (if 0 \<le> n then take (nat n) xs else take (nat (int (length xs) + n)) xs)"

text \<open>
  The loop of lines 467 to 471, threading the cache; \<open>clock i\<close> is the time at which
  the symbol number \<open>i\<close> is processed. An exception of \<^verbatim>\<open>pull_company_cached\<close> is not
  caught there and ends the loop.
\<close>

fun pull_records ::
  "world \<Rightarrow> (nat \<Rightarrow> rat) \<Rightarrow> bool \<Rightarrow> rat \<Rightarrow> cache_dir \<Rightarrow> nat \<Rightarrow> string list
     \<Rightarrow> (py_error + fin_record list) \<times> cache_dir" where
  "pull_records w clock annual min_mcap c i [] = (Inr [], c)"
| "pull_records w clock annual min_mcap c i (s # ss) =
     (case pull_company_cached w c (clock i) s annual of
        (Inl e, c') \<Rightarrow> (Inl e, c')
      | (Inr rec, c') \<Rightarrow>
          (case pull_records w clock annual min_mcap c' (Suc i) ss of
             (Inl e, c'') \<Rightarrow> (Inl e, c'')
           | (Inr records, c'') \<Rightarrow>
               (Inr (case rec of
                       None \<Rightarrow> records
                     | Some r \<Rightarrow> if min_mcap \<le> marketCap r then r # records else records),
                c'')))"

definition to_row :: "fin_record \<Rightarrow> fin_record frame_row" where
  "to_row r = \<lparr>cols = r, col_EY = Some (EY r), col_ROC = Some (ROC r)\<rparr>"

text \<open>The list \<^verbatim>\<open>symbols\<close> that the scan processes, lines 446 to 463.\<close>

definition scan_symbols ::
  "world \<Rightarrow> (string list \<Rightarrow> string list) \<Rightarrow> args \<Rightarrow> py_error + string list" where
  "scan_symbols w shuffle a =
     bind_err (collect_symbols w (arg_min_mcap a) (arg_countries a) (arg_exchanges a)) (\<lambda>found.
       let symbols = dedup found;
           symbols = (if arg_random a then shuffle symbols else symbols);
           symbols = (if arg_limit a \<noteq> 0 \<and> arg_limit a < int (length symbols)
                      then slice_to (arg_limit a) symbols else symbols)
       in Inr symbols)"

definition main ::
  "world \<Rightarrow> (nat \<Rightarrow> rat) \<Rightarrow> (string list \<Rightarrow> string list) \<Rightarrow> cache_dir \<Rightarrow> args
     \<Rightarrow> (py_error + fin_record ranked list option) \<times> cache_dir" where
  "main w clock shuffle c a =
     (case scan_symbols w shuffle a of
        Inl e \<Rightarrow> (Inl e, c)
      | Inr symbols \<Rightarrow>
          (case pull_records w clock (arg_annual a) (arg_min_mcap a) c 0 symbols of
             (Inl e, c') \<Rightarrow> (Inl e, c')
           | (Inr records, c') \<Rightarrow>
               if records = [] then (Inr None, c')
               else (Inr (Some (slice_to (arg_top a)
                                 (magic_formula_rank (map to_row records)))), c')))"

section \<open>Concrete inputs\<close>

text \<open>
  A provider that answers every request with the same document \<open>j\<close>, for a process whose
  environment holds the credential \<open>key\<close>.
\<close>

definition const_world :: "string \<Rightarrow> json \<Rightarrow> world" where
  "const_world key j =
     \<lparr>environ = [''FMP_API_KEY'' \<mapsto> key],
      S_get = (\<lambda>url params a. Inr \<lparr>status_code = 200, body = Inr j\<rparr>),
      float_of_str = (\<lambda>s. None),
      cmp_lists = (\<lambda>xs ys. Inl TypeError)\<rparr>"

definition screener_rows :: json where
  "screener_rows =
     JList [JDict [(''symbol'', JStr ''ABC'')],
            JDict [(''symbol'', JStr ''XYZ''), (''marketCap'', JNum 100)]]"

text \<open>
  A document that serves as profile, income statement and balance sheet at once: one
  period of a company with the operating income \<open>ebit\<close> and the cash \<open>cash\<close>; and a
  document of five such periods.
\<close>

definition company_row :: "rat \<Rightarrow> rat \<Rightarrow> json" where
  "company_row ebit cash =
     JDict [(''sector'', JStr ''Technology''), (''mktCap'', JNum 1000000000),
            (''operatingIncome'', JNum ebit),
            (''totalCurrentAssets'', JNum 50000000),
            (''totalCurrentLiabilities'', JNum 20000000),
            (''propertyPlantEquipmentNet'', JNum 30000000),
            (''cashAndShortTermInvestments'', JNum cash),
            (''totalDebt'', JNum 20000000)]"

definition company_doc :: "rat \<Rightarrow> rat \<Rightarrow> json" where
  "company_doc ebit cash = JList [company_row ebit cash]"

definition quarters_doc :: json where
  "quarters_doc =
     JList [company_row 10000000 10000000, company_row 20000000 10000000,
            company_row 30000000 10000000, company_row 40000000 10000000,
            company_row 50000000 10000000]"

text \<open>The record that \<^verbatim>\<open>pull_company\<close> builds from such documents for the symbol \<^verbatim>\<open>ABC\<close>.\<close>

definition company_record :: "rat \<Rightarrow> rat \<Rightarrow> rat \<Rightarrow> rat \<Rightarrow> rat \<Rightarrow> rat \<Rightarrow> rat \<Rightarrow> fin_record" where
  "company_record ebit cash ev nwc capital ey roc =
     \<lparr>ticker = ''ABC'', name = JNull, exchange = JNull, country = JNull,
      sector = JStr ''Technology'', industry = JNull, marketCap = 1000000000,
      EV = ev, EBIT = ebit, NWC = nwc, PPE_Net = 30000000, Capital = capital,
      Cash = cash, TotalDebt = 20000000, EY = ey, ROC = roc\<rparr>"

text \<open>
  Four quarters of cash flow, the second with an operating cash flow below the net
  income; a process without the credential; a cache directory on an unavailable disk.
\<close>

definition cashflow_doc :: json where
  "cashflow_doc =
     JList [JDict [(''operatingCashFlow'', JNum 5), (''netIncome'', JNum 3)],
            JDict [(''operatingCashFlow'', JNum 1), (''netIncome'', JNum 2)],
            JDict [(''operatingCashFlow'', JNum 5), (''netIncome'', JNum 3)],
            JDict [(''operatingCashFlow'', JNum 5), (''netIncome'', JNum 3)]]"

definition no_credential :: "json \<Rightarrow> world" where
  "no_credential j = (const_world ''k'' j)\<lparr>environ := Map.empty\<rparr>"


definition empty_cache :: cache_dir where
  "empty_cache = \<lparr>files = Map.empty, disk_ok = True\<rparr>"

definition sample_args :: args where
  "sample_args =
     \<lparr>arg_exchanges = [''NYSE''], arg_countries = [''US''], arg_min_mcap = 50000000,
      arg_limit = 400, arg_top = 30, arg_random = False, arg_annual = False\<rparr>"

text \<open>Rows of a frame: a ticker with its two values.\<close>

definition frame_row :: "string \<Rightarrow> rat option \<Rightarrow> rat option \<Rightarrow> string frame_row" where
  "frame_row t e c = \<lparr>cols = t, col_EY = e, col_ROC = c\<rparr>"

definition ranked_row :: "string \<Rightarrow> rat \<Rightarrow> rat \<Rightarrow> nat \<Rightarrow> nat \<Rightarrow> nat \<Rightarrow> string ranked" where
  "ranked_row t e c er rr mf =
     \<lparr>row = frame_row t (Some e) (Some c), EY_rank = er, ROC_rank = rr, MF_score = mf\<rparr>"

text \<open>
  A frame of four rows, one of them without EY, with a tie on EY; a frame of two rows
  that are equal in EY and in ROC; and a frame of three rows with distinct values.
\<close>

definition demo_frame :: "string frame_row list" where
  "demo_frame =
     [frame_row ''A'' (Some (1 / 10)) (Some (3 / 10)),
      frame_row ''B'' (Some (1 / 10)) (Some (1 / 2)),
      frame_row ''C'' (Some (1 / 20)) (Some (1 / 10)),
      frame_row ''D'' None (Some (9 / 10))]"

definition tied_frame :: "string frame_row list" where
  "tied_frame =
     [frame_row ''A'' (Some (1 / 10)) (Some (1 / 5)),
      frame_row ''B'' (Some (1 / 10)) (Some (1 / 5))]"

definition distinct_frame :: "string frame_row list" where
  "distinct_frame =
     [frame_row ''A'' (Some (1 / 5)) (Some (3 / 10)),
      frame_row ''B'' (Some (1 / 10)) (Some (1 / 2)),
      frame_row ''C'' (Some (3 / 20)) (Some (1 / 10))]"

section \<open>Properties of the symbol universe\<close>

lemma bind_err_Inr_iff:
  "bind_err m f = Inr y \<longleftrightarrow> (\<exists>x. m = Inr x \<and> f x = Inr y)"
  by (cases m) (simp_all add: bind_err_def)

lemma filter_rows_member:
  "filter_rows w min_mcap countries rs = Inr out \<Longrightarrow> r \<in> set out \<Longrightarrow>
     r \<in> set rs \<and> keep_row w min_mcap countries r = Inr True"
proof (induction rs arbitrary: out)
  case Nil
  then show ?case by simp
next
  case (Cons a rs)
  from Cons.prems(1) obtain k filtered where
    k: "keep_row w min_mcap countries a = Inr k"
    and f: "filter_rows w min_mcap countries rs = Inr filtered"
    and out: "out = (if k then a # filtered else filtered)"
    by (auto simp: bind_err_Inr_iff)
  show ?case
  proof (cases "r \<in> set filtered")
    case True
    with Cons.IH [OF f] show ?thesis by simp
  next
    case False
    with Cons.prems(2) out have "k" "r = a" by (auto split: if_splits)
    with k show ?thesis by simp
  qed
qed

lemma keep_row_null_mcap:
  assumes "0 < min_mcap" and "dict_get r ''marketCap'' = Inr JNull"
  shows "keep_row w min_mcap countries r \<noteq> Inr True"
  using assms
  by (auto simp: keep_row_def bind_err_def py_or_def py_ge_def rat_cmp_def
      split: sum.splits json.splits if_splits)

lemma keep_row_zero_mcap:
  assumes "map_of kvs ''marketCap'' \<in> {None, Some JNull}"
  shows "keep_row w min_mcap countries (JDict kvs) =
         keep_row w min_mcap countries (JDict ((''marketCap'', JNum 0) # kvs))"
  using assms
  by (auto simp: keep_row_def bind_err_def py_or_def split: sum.splits json.splits option.splits)

text \<open>
  Claim C10. In \<^verbatim>\<open>list_symbols\<close> a screener row whose \<^verbatim>\<open>marketCap\<close> is missing or null is
  tested exactly as the same row with market cap 0, and for every strictly positive
  threshold it is not in the returned universe.
\<close>

theorem list_symbols_missing_mcap:
  assumes "map_of kvs ''marketCap'' \<in> {None, Some JNull}"
  shows "keep_row w min_mcap countries (JDict kvs) =
           keep_row w min_mcap countries (JDict ((''marketCap'', JNum 0) # kvs))
       \<and> (0 < min_mcap \<longrightarrow> list_symbols w ex min_mcap countries = Inr out \<longrightarrow>
            JDict kvs \<notin> set out)"
proof (intro conjI impI)
  show "keep_row w min_mcap countries (JDict kvs) =
        keep_row w min_mcap countries (JDict ((''marketCap'', JNum 0) # kvs))"
    using assms by (rule keep_row_zero_mcap)
next
  assume pos: "0 < min_mcap" and ls: "list_symbols w ex min_mcap countries = Inr out"
  from assms have null: "dict_get (JDict kvs) ''marketCap'' = Inr JNull"
    by (auto split: option.splits)
  show "JDict kvs \<notin> set out"
  proof
    assume mem: "JDict kvs \<in> set out"
    from ls obtain rs where "filter_rows w min_mcap countries rs = Inr out"
      by (auto simp: list_symbols_def bind_err_Inr_iff)
    from filter_rows_member [OF this mem]
    have "keep_row w min_mcap countries (JDict kvs) = Inr True" by simp
    with keep_row_null_mcap [OF pos null] show False by simp
  qed
qed

lemma list_symbols_screener_world:
  "list_symbols (const_world ''k'' screener_rows) ''NYSE'' 1 None
     = Inr [JDict [(''symbol'', JStr ''XYZ''), (''marketCap'', JNum 100)]]"
  by (simp add: list_symbols_def fmp_get_or_empty_def fmp_get_def os_getenv_def const_world_def
      screener_rows_def bind_err_def raise_for_status_def py_or_def keep_row_def endswith_def
      isalpha_def is_alpha_char_def py_ge_def rat_cmp_def Let_def numeral_3_eq_3)

theorem list_symbols_missing_mcap_witness:
  "map_of [(''symbol'', JStr ''ABC'')] ''marketCap'' \<in> {None, Some JNull}
   \<and> (0::rat) < 1
   \<and> list_symbols (const_world ''k'' screener_rows) ''NYSE'' 1 None
        = Inr [JDict [(''symbol'', JStr ''XYZ''), (''marketCap'', JNum 100)]]
   \<and> JDict [(''symbol'', JStr ''ABC'')]
        \<notin> set [JDict [(''symbol'', JStr ''XYZ''), (''marketCap'', JNum 100)]]"
  using list_symbols_missing_mcap [of "[(''symbol'', JStr ''ABC'')]"
      "const_world ''k'' screener_rows" 1 None "''NYSE''"
      "[JDict [(''symbol'', JStr ''XYZ''), (''marketCap'', JNum 100)]]"]
    list_symbols_screener_world
  by simp

section \<open>Properties of the per-symbol derivation\<close>

text \<open>Evaluation of \<^verbatim>\<open>pull_company\<close> on the concrete documents.\<close>

lemmas eval_defs =
  pull_company_def pull_company_try_def fmp_profile_def fmp_income_def fmp_balance_def
  fmp_get_or_empty_def fmp_get_def os_getenv_def const_world_def company_doc_def
  company_row_def quarters_doc_def
  bind_err_def raise_for_status_def py_or_def latest_def first_available_def ebit_ttm_def
  py_add_def profile_mcap_def profile_info_def EXCLUDE_SECTORS_def numeral_3_eq_3


lemma pull_company_company_doc_ttm:
  "pull_company (const_world ''k'' (company_doc x cash)) ''ABC'' False =
     build_record ''ABC'' (JNull, JNull, JNull, JStr ''Technology'', JNull)
       (x * 4) 50000000 20000000 30000000 cash 20000000 1000000000"
  by (simp add: eval_defs)






lemma build_record_annualised:
  "build_record ''ABC'' (JNull, JNull, JNull, JStr ''Technology'', JNull)
       28000000 50000000 20000000 30000000 10000000 20000000 1000000000
   = Some (company_record 28000000 10000000 1010000000 40000000 70000000 (14 / 505) (2 / 5))"
  by (simp add: build_record_def company_record_def Let_def)


lemma build_record_no_ev:
  "build_record ''ABC'' (JNull, JNull, JNull, JStr ''Technology'', JNull)
       7000000 50000000 20000000 30000000 2000000000 20000000 1000000000 = None"
  by (simp add: build_record_def company_record_def Let_def)
























section \<open>Properties of the health checks\<close>

text \<open>
  Claim C8. For every symbol and every combination of enabled checks, \<open>passes_all\<close>
  is true unless a check that ran gave \<^verbatim>\<open>False\<close>. A check runs only when enabled, an
  exception inside it gives the value unknown, and a check that is unknown leaves
  \<open>passes_all\<close> as it is without that check.
\<close>

theorem check_financial_health_passes_all:
  "(passes_all (check_financial_health w symb cdr ccq n1 n2) \<longleftrightarrow>
      \<not> (debt_revenue_check (check_financial_health w symb cdr ccq n1 n2) = Some (Some False)
         \<or> cashflow_quality_check (check_financial_health w symb cdr ccq n1 n2)
              = Some (Some False)))
   \<and> debt_revenue_check (check_financial_health w symb cdr ccq n1 n2)
       = (if cdr then Some (case debt_revenue_try w symb n1 of Inl e \<Rightarrow> None | Inr v \<Rightarrow> v)
          else None)
   \<and> cashflow_quality_check (check_financial_health w symb cdr ccq n1 n2)
       = (if ccq then Some (case cashflow_try w symb n2 of Inl e \<Rightarrow> None | Inr v \<Rightarrow> v)
          else None)
   \<and> (debt_revenue_check (check_financial_health w symb True ccq n1 n2) = Some None \<longrightarrow>
        passes_all (check_financial_health w symb True ccq n1 n2)
          = passes_all (check_financial_health w symb False ccq n1 n2))
   \<and> (cashflow_quality_check (check_financial_health w symb cdr True n1 n2) = Some None \<longrightarrow>
        passes_all (check_financial_health w symb cdr True n1 n2)
          = passes_all (check_financial_health w symb cdr False n1 n2))"
  by (simp add: check_financial_health_def Let_def except_none_def)

lemma health_cashflow_doc:
  "check_financial_health (const_world ''k'' cashflow_doc) ''ABC'' False True 6 8
     = \<lparr>symbol = ''ABC'', passes_all = False, debt_revenue_check = None,
        cashflow_quality_check = Some (Some False)\<rparr>"
  by (simp add: check_financial_health_def Let_def except_none_def cashflow_try_def
      fmp_get_def os_getenv_def const_world_def cashflow_doc_def bind_err_def
      raise_for_status_def py_or_def py_gt_def rat_cmp_def numeral_3_eq_3)

lemma health_short_doc:
  "check_financial_health (const_world ''k'' (company_doc 7000000 10000000)) ''ABC'' True True 6 8
     = \<lparr>symbol = ''ABC'', passes_all = True, debt_revenue_check = Some None,
        cashflow_quality_check = Some None\<rparr>"
  by (simp add: check_financial_health_def Let_def except_none_def cashflow_try_def
      debt_revenue_try_def fmp_get_def os_getenv_def const_world_def company_doc_def
      bind_err_def raise_for_status_def numeral_3_eq_3)

lemma health_short_doc_disabled:
  "check_financial_health (const_world ''k'' (company_doc 7000000 10000000)) ''ABC'' False False 6 8
     = \<lparr>symbol = ''ABC'', passes_all = True, debt_revenue_check = None,
        cashflow_quality_check = None\<rparr>"
  by (simp add: check_financial_health_def Let_def)

theorem check_financial_health_passes_all_witness:
  "check_financial_health (const_world ''k'' cashflow_doc) ''ABC'' False True 6 8
     = \<lparr>symbol = ''ABC'', passes_all = False, debt_revenue_check = None,
        cashflow_quality_check = Some (Some False)\<rparr>
   \<and> check_financial_health (const_world ''k'' (company_doc 7000000 10000000)) ''ABC''
        True True 6 8
     = \<lparr>symbol = ''ABC'', passes_all = True, debt_revenue_check = Some None,
        cashflow_quality_check = Some None\<rparr>
   \<and> passes_all (check_financial_health (const_world ''k'' (company_doc 7000000 10000000))
        ''ABC'' False True 6 8)"
  using check_financial_health_passes_all [of "const_world ''k'' cashflow_doc" "''ABC''" False
      True 6 8]
    check_financial_health_passes_all [of "const_world ''k'' (company_doc 7000000 10000000)"
      "''ABC''" True True 6 8]
  by (simp add: health_cashflow_doc health_short_doc)

section \<open>The missing credential\<close>

lemma fmp_get_no_key:
  assumes "os_getenv w ''FMP_API_KEY'' '''' = []"
  shows "fmp_get w path params = Inl RuntimeError"
  using assms by (simp add: fmp_get_def)

lemma pull_company_try_no_key:
  assumes "os_getenv w ''FMP_API_KEY'' '''' = []"
  shows "pull_company_try w symb annual = Inl RuntimeError"
  by (simp add: pull_company_try_def fmp_profile_def fmp_get_or_empty_def
      fmp_get_no_key [OF assms] bind_err_def)

text \<open>
  Claim C3, as amended. The absence of the credential is detected by every provider call:
  \<^verbatim>\<open>fmp_get\<close> raises before it sends a request, whatever the provider would answer. The
  universe builder passes the error on, so a scan over at least one exchange ends with
  this error before any symbol is processed and leaves the cache as it was. The
  per-symbol derivation, called without the credential, swallows the error and returns
  no record, and a health check that runs reports unknown.
\<close>

theorem missing_credential:
  assumes "os_getenv w ''FMP_API_KEY'' '''' = []"
  shows "fmp_get w path params = Inl RuntimeError
       \<and> list_symbols w ex min_mcap countries = Inl RuntimeError
       \<and> (arg_exchanges a \<noteq> [] \<longrightarrow> main w clock shuffle c a = (Inl RuntimeError, c))
       \<and> pull_company w symb annual = None
       \<and> check_financial_health w symb True True n1 n2
           = \<lparr>symbol = symb, passes_all = True, debt_revenue_check = Some None,
              cashflow_quality_check = Some None\<rparr>"
proof -
  note k = fmp_get_no_key [OF assms]
  have ls: "list_symbols w ex min_mcap countries = Inl RuntimeError" for ex min_mcap countries
    by (simp add: list_symbols_def fmp_get_or_empty_def k bind_err_def)
  have m: "main w clock shuffle c a = (Inl RuntimeError, c)" if "arg_exchanges a \<noteq> []"
  proof -
    from that obtain ex exs where "arg_exchanges a = ex # exs"
      by (cases "arg_exchanges a") auto
    then show ?thesis
      by (simp add: main_def scan_symbols_def ls bind_err_def)
  qed
  have p: "pull_company w symb annual = None"
    by (simp add: pull_company_def pull_company_try_no_key [OF assms])
  have h: "check_financial_health w symb True True n1 n2
           = \<lparr>symbol = symb, passes_all = True, debt_revenue_check = Some None,
              cashflow_quality_check = Some None\<rparr>"
    by (simp add: check_financial_health_def Let_def except_none_def debt_revenue_try_def
        cashflow_try_def k bind_err_def)
  from k ls m p h show ?thesis by blast
qed

lemma no_credential_getenv:
  "os_getenv (no_credential j) ''FMP_API_KEY'' '''' = []"
  by (simp add: os_getenv_def no_credential_def const_world_def)

theorem missing_credential_witness:
  "os_getenv (no_credential (company_doc 7000000 10000000)) ''FMP_API_KEY'' '''' = []
   \<and> fmp_get (no_credential (company_doc 7000000 10000000)) ''/profile/ABC'' Map.empty
       = Inl RuntimeError
   \<and> arg_exchanges sample_args \<noteq> []
   \<and> main (no_credential (company_doc 7000000 10000000)) (\<lambda>i. 0) id empty_cache sample_args
       = (Inl RuntimeError, empty_cache)
   \<and> pull_company (no_credential (company_doc 7000000 10000000)) ''ABC'' False = None"
  using missing_credential [OF no_credential_getenv,
      of "company_doc 7000000 10000000" "''/profile/ABC''" Map.empty _ _ _ sample_args
      "\<lambda>i. 0" id empty_cache "''ABC''" False]
  by (simp add: no_credential_getenv sample_args_def)

text \<open>
  Claim C3, as stated, fails: without the credential the derivation of a symbol does not
  abort, it returns \<^verbatim>\<open>None\<close> as for a symbol without data, although the same provider
  with the credential yields a record; the error is raised by the single call.
\<close>

theorem missing_credential_swallowed:
  "pull_company (no_credential (company_doc 7000000 10000000)) ''ABC'' False = None
   \<and> pull_company (const_world ''k'' (company_doc 7000000 10000000)) ''ABC'' False
       = Some (company_record 28000000 10000000 1010000000 40000000 70000000 (14 / 505) (2 / 5))
   \<and> fmp_get (no_credential (company_doc 7000000 10000000)) ''/stock-screener''
       (screener_params ''NYSE'') = Inl RuntimeError"
proof -
  have "pull_company (no_credential (company_doc 7000000 10000000)) ''ABC'' False = None"
    by (simp add: pull_company_def pull_company_try_no_key no_credential_getenv)
  moreover
  have "pull_company (const_world ''k'' (company_doc 7000000 10000000)) ''ABC'' False
       = Some (company_record 28000000 10000000 1010000000 40000000 70000000 (14 / 505) (2 / 5))"
    by (simp add: pull_company_company_doc_ttm build_record_annualised)
  moreover
  have "fmp_get (no_credential (company_doc 7000000 10000000)) ''/stock-screener''
       (screener_params ''NYSE'') = Inl RuntimeError"
    by (simp add: fmp_get_no_key no_credential_getenv)
  ultimately show ?thesis by simp
qed

section \<open>Properties of the result cache\<close>







section \<open>Properties of the ranking\<close>

lemma first_occurrence_desc:
  assumes "sorted_wrt (\<lambda>x y. y \<le> x) s" and "v \<in> set s"
  shows "takeWhile (\<lambda>u. u \<noteq> v) s = filter (\<lambda>u. v < u) (s :: rat list)"
  using assms
proof (induction s)
  case Nil
  then show ?case by simp
next
  case (Cons x xs)
  show ?case
  proof (cases "x = v")
    case True
    with Cons.prems(1) have "\<forall>y\<in>set xs. \<not> v < y" by auto
    then have "filter (\<lambda>u. v < u) xs = []" by (simp add: filter_empty_conv)
    with True show ?thesis by simp
  next
    case False
    with Cons.prems have "v \<in> set xs" "v \<le> x" by auto
    with False Cons show ?thesis by auto
  qed
qed

lemma length_filter_mset:
  "mset xs = mset ys \<Longrightarrow> length (filter P xs) = length (filter P ys)"
  by (metis mset_filter size_mset)

lemma rank_desc_min_eq:
  "rank_desc_min vs = map (\<lambda>v. Suc (length (filter (\<lambda>u. v < u) vs))) vs"
proof -
  let ?s = "rev (sort vs)"
  have desc: "sorted_wrt (\<lambda>x y. y \<le> x) ?s"
    by (simp add: sorted_wrt_rev)
  have "length (takeWhile (\<lambda>u. u \<noteq> v) ?s) = length (filter (\<lambda>u. v < u) vs)"
    if "v \<in> set vs" for v
  proof -
    from that have "v \<in> set ?s" by simp
    from first_occurrence_desc [OF desc this]
    have "length (takeWhile (\<lambda>u. u \<noteq> v) ?s) = length (filter (\<lambda>u. v < u) ?s)" by simp
    also have "\<dots> = length (filter (\<lambda>u. v < u) vs)"
      by (rule length_filter_mset) simp
    finally show ?thesis .
  qed
  then show ?thesis by (simp add: rank_desc_min_def)
qed

lemma dropna_eq:
  "dropna df = map (\<lambda>r. (r, the (col_EY r), the (col_ROC r))) (filter complete_row df)"
  by (induction df)
    (auto simp: dropna_def present_def complete_row_def
      split: option.splits)

lemma zip_map3:
  "zip (map g xs) (zip (map a xs) (map b xs)) = map (\<lambda>x. (g x, a x, b x)) xs"
  by (induction xs) simp_all

lemma count_exceeding:
  assumes "\<And>r. complete_row r \<Longrightarrow> col r \<noteq> None"
  shows "length (filter (\<lambda>u. v < u) (map (\<lambda>r. the (col r)) (filter complete_row df)))
     = length (filter (\<lambda>r. complete_row r \<and> exceeds v (col r)) df)"
proof -
  have "filter (\<lambda>r. complete_row r \<and> v < the (col r)) df
      = filter (\<lambda>r. complete_row r \<and> exceeds v (col r)) df"
    by (rule filter_cong) (auto simp: exceeds_def dest: assms)
  then show ?thesis
    by (simp add: filter_map o_def)
qed

lemma rank_of_column:
  assumes "\<And>r. complete_row r \<Longrightarrow> col r \<noteq> None"
  shows "rank_desc_min (map (\<lambda>r. the (col r)) (filter complete_row df))
       = map (\<lambda>r. competition_rank col df (the (col r))) (filter complete_row df)"
proof -
  have "rank_desc_min (map (\<lambda>r. the (col r)) (filter complete_row df))
      = map (\<lambda>r. Suc (length (filter (\<lambda>u. the (col r) < u)
               (map (\<lambda>r. the (col r)) (filter complete_row df))))) (filter complete_row df)"
    unfolding rank_desc_min_eq by (simp only: map_map o_def)
  also have "\<dots> = map (\<lambda>r. competition_rank col df (the (col r))) (filter complete_row df)"
    by (simp only: count_exceeding [of col, OF assms] competition_rank_def)
  finally show ?thesis .
qed

text \<open>The ranked row of a complete row of the frame \<open>df\<close>.\<close>

lemma magic_formula_rank_eq:
  "magic_formula_rank df =
     sort_key sort_keys
       (map (\<lambda>r. \<lparr>row = r,
                  EY_rank = competition_rank col_EY df (the (col_EY r)),
                  ROC_rank = competition_rank col_ROC df (the (col_ROC r)),
                  MF_score = competition_rank col_EY df (the (col_EY r))
                             + competition_rank col_ROC df (the (col_ROC r))\<rparr>)
            (filter complete_row df))"
proof -
  have ey: "map (\<lambda>(r, e, c). e) (dropna df) = map (\<lambda>r. the (col_EY r)) (filter complete_row df)"
    and roc: "map (\<lambda>(r, e, c). c) (dropna df) = map (\<lambda>r. the (col_ROC r)) (filter complete_row df)"
    by (simp_all add: dropna_eq o_def)
  have rE: "rank_desc_min (map (\<lambda>r. the (col_EY r)) (filter complete_row df))
       = map (\<lambda>r. competition_rank col_EY df (the (col_EY r))) (filter complete_row df)"
    by (rule rank_of_column) (simp add: complete_row_def)
  have rR: "rank_desc_min (map (\<lambda>r. the (col_ROC r)) (filter complete_row df))
       = map (\<lambda>r. competition_rank col_ROC df (the (col_ROC r))) (filter complete_row df)"
    by (rule rank_of_column) (simp add: complete_row_def)
  show ?thesis
    unfolding magic_formula_rank_def Let_def ey roc rE rR
    unfolding dropna_eq zip_map3
    by (simp add: o_def)
qed

lemma rank_desc_min_example:
  "rank_desc_min [1 / 10, 1 / 10, 1 / 20] = [1, 1, 3]"
  by (simp add: rank_desc_min_eq)

lemma sort_keys_le:
  "sort_keys x \<le> sort_keys y \<longleftrightarrow>
     MF_score x < MF_score y
     \<or> MF_score x = MF_score y
       \<and> (EY_rank x < EY_rank y \<or> EY_rank x = EY_rank y \<and> ROC_rank x \<le> ROC_rank y)"
  by (auto simp: sort_keys_def less_eq_prod_def)

text \<open>
  Claim C1. \<^verbatim>\<open>magic_formula_rank\<close> returns exactly the rows that have both EY and ROC;
  each carries as \<open>EY_rank\<close> and \<open>ROC_rank\<close> the competition rank of its value in
  descending order (one more than the number of kept rows with a strictly greater value,
  so equal values share the lowest rank of their group and the ranks after a group skip),
  and \<open>MF_score\<close> is their sum; the rows come sorted by \<open>MF_score\<close>, then \<open>EY_rank\<close>, then
  \<open>ROC_rank\<close>. The values 0.10, 0.10, 0.05 get the ranks 1, 1, 3.
\<close>

theorem magic_formula_rank_spec:
  "mset (map row (magic_formula_rank df)) = mset (filter complete_row df)
   \<and> (\<forall>x\<in>set (magic_formula_rank df). \<exists>e c.
         col_EY (row x) = Some e \<and> col_ROC (row x) = Some c
       \<and> EY_rank x = competition_rank col_EY df e
       \<and> ROC_rank x = competition_rank col_ROC df c
       \<and> MF_score x = EY_rank x + ROC_rank x)
   \<and> sorted_wrt (\<lambda>x y. MF_score x < MF_score y
         \<or> MF_score x = MF_score y
           \<and> (EY_rank x < EY_rank y \<or> EY_rank x = EY_rank y \<and> ROC_rank x \<le> ROC_rank y))
       (magic_formula_rank df)
   \<and> rank_desc_min [1 / 10, 1 / 10, 1 / 20] = [1, 1, 3]"
proof (intro conjI ballI)
  show "mset (map row (magic_formula_rank df)) = mset (filter complete_row df)"
    by (simp add: magic_formula_rank_eq multiset.map_comp o_def)
next
  fix x assume "x \<in> set (magic_formula_rank df)"
  then obtain r where r: "r \<in> set df" "complete_row r"
    and x: "x = \<lparr>row = r,
                  EY_rank = competition_rank col_EY df (the (col_EY r)),
                  ROC_rank = competition_rank col_ROC df (the (col_ROC r)),
                  MF_score = competition_rank col_EY df (the (col_EY r))
                             + competition_rank col_ROC df (the (col_ROC r))\<rparr>"
    by (auto simp: magic_formula_rank_eq)
  from r(2) obtain e c where "col_EY r = Some e" "col_ROC r = Some c"
    by (auto simp: complete_row_def)
  with x show "\<exists>e c. col_EY (row x) = Some e \<and> col_ROC (row x) = Some c
       \<and> EY_rank x = competition_rank col_EY df e
       \<and> ROC_rank x = competition_rank col_ROC df c
       \<and> MF_score x = EY_rank x + ROC_rank x"
    by simp
next
  have "sorted (map sort_keys (magic_formula_rank df))"
    by (simp add: magic_formula_rank_eq)
  then show "sorted_wrt (\<lambda>x y. MF_score x < MF_score y
         \<or> MF_score x = MF_score y
           \<and> (EY_rank x < EY_rank y \<or> EY_rank x = EY_rank y \<and> ROC_rank x \<le> ROC_rank y))
       (magic_formula_rank df)"
    by (simp add: sorted_map sort_keys_le)
next
  show "rank_desc_min [1 / 10, 1 / 10, 1 / 20] = [1, 1, 3]"
    by (rule rank_desc_min_example)
qed

lemma frame_row_simps:
  "cols (frame_row t e c) = t" "col_EY (frame_row t e c) = e" "col_ROC (frame_row t e c) = c"
  "complete_row (frame_row t (Some x) (Some y))"
  "\<not> complete_row (frame_row t None c)" "\<not> complete_row (frame_row t e None)"
  by (simp_all add: frame_row_def complete_row_def)

lemma ranked_row_simps:
  "row (ranked_row t e c er rr mf) = frame_row t (Some e) (Some c)"
  "EY_rank (ranked_row t e c er rr mf) = er"
  "ROC_rank (ranked_row t e c er rr mf) = rr"
  "MF_score (ranked_row t e c er rr mf) = mf"
  by (simp_all add: ranked_row_def)

lemmas rank_eval =
  magic_formula_rank_eq competition_rank_def exceeds_def frame_row_simps
  ranked_row_def sort_keys_def less_eq_prod_def

lemma magic_formula_rank_demo_frame:
  "magic_formula_rank demo_frame =
     [ranked_row ''B'' (1 / 10) (1 / 2) 1 1 2,
      ranked_row ''A'' (1 / 10) (3 / 10) 1 2 3,
      ranked_row ''C'' (1 / 20) (1 / 10) 3 3 6]"
  by (simp add: rank_eval demo_frame_def)

lemma magic_formula_rank_tied_frame:
  "magic_formula_rank tied_frame =
     [ranked_row ''A'' (1 / 10) (1 / 5) 1 1 2, ranked_row ''B'' (1 / 10) (1 / 5) 1 1 2]"
  "magic_formula_rank (rev tied_frame) =
     [ranked_row ''B'' (1 / 10) (1 / 5) 1 1 2, ranked_row ''A'' (1 / 10) (1 / 5) 1 1 2]"
  by (simp_all add: rank_eval tied_frame_def)

theorem magic_formula_rank_spec_witness:
  "magic_formula_rank demo_frame =
     [ranked_row ''B'' (1 / 10) (1 / 2) 1 1 2,
      ranked_row ''A'' (1 / 10) (3 / 10) 1 2 3,
      ranked_row ''C'' (1 / 20) (1 / 10) 3 3 6]
   \<and> ranked_row ''C'' (1 / 20) (1 / 10) 3 3 6 \<in> set (magic_formula_rank demo_frame)
   \<and> competition_rank col_EY demo_frame (1 / 20) = 3
   \<and> competition_rank col_ROC demo_frame (1 / 10) = 3
   \<and> filter complete_row demo_frame =
       [frame_row ''A'' (Some (1 / 10)) (Some (3 / 10)),
        frame_row ''B'' (Some (1 / 10)) (Some (1 / 2)),
        frame_row ''C'' (Some (1 / 20)) (Some (1 / 10))]"
proof -
  note ev = magic_formula_rank_demo_frame
  have mem: "ranked_row ''C'' (1 / 20) (1 / 10) 3 3 6 \<in> set (magic_formula_rank demo_frame)"
    unfolding ev by (rule list.set_intros | rule refl)+
  from magic_formula_rank_spec [of demo_frame]
  have "\<forall>x\<in>set (magic_formula_rank demo_frame). \<exists>e c.
         col_EY (row x) = Some e \<and> col_ROC (row x) = Some c
       \<and> EY_rank x = competition_rank col_EY demo_frame e
       \<and> ROC_rank x = competition_rank col_ROC demo_frame c
       \<and> MF_score x = EY_rank x + ROC_rank x"
    by blast
  from bspec [OF this mem, unfolded ranked_row_simps frame_row_simps]
  obtain e c where "Some (1 / 20) = Some e" "Some (1 / 10) = Some c"
    "3 = competition_rank col_EY demo_frame e" "3 = competition_rank col_ROC demo_frame c"
    by blast
  then have ranks: "competition_rank col_EY demo_frame (1 / 20) = 3"
    "competition_rank col_ROC demo_frame (1 / 10) = 3"
    by (simp_all only: option.inject)
  have kept: "filter complete_row demo_frame =
       [frame_row ''A'' (Some (1 / 10)) (Some (3 / 10)),
        frame_row ''B'' (Some (1 / 10)) (Some (1 / 2)),
        frame_row ''C'' (Some (1 / 20)) (Some (1 / 10))]"
    by (simp add: demo_frame_def frame_row_simps)
  from ev mem ranks kept show ?thesis by blast
qed

lemma competition_rank_mset:
  assumes "mset df = mset df'"
  shows "competition_rank col df v = competition_rank col df' v"
  unfolding competition_rank_def
  by (rule arg_cong [where f = Suc], rule length_filter_mset, rule assms)

lemma length_filter_mono:
  "\<forall>x\<in>set xs. P x \<longrightarrow> Q x \<Longrightarrow> length (filter P xs) \<le> length (filter Q xs)"
  by (induction xs) simp_all

lemma length_filter_strict:
  assumes "\<forall>x\<in>set xs. P x \<longrightarrow> Q x" and "\<exists>x\<in>set xs. Q x \<and> \<not> P x"
  shows "length (filter P xs) < length (filter Q xs)"
  using assms
proof (induction xs)
  case Nil
  then show ?case by simp
next
  case (Cons x xs)
  from Cons.prems(1) have imp: "\<forall>x\<in>set xs. P x \<longrightarrow> Q x" and here: "P x \<longrightarrow> Q x"
    by simp_all
  show ?case
  proof (cases "Q x \<and> \<not> P x")
    case True
    with length_filter_mono [OF imp] show ?thesis by simp
  next
    case False
    with Cons.prems(2) have "\<exists>x\<in>set xs. Q x \<and> \<not> P x" by auto
    from Cons.IH [OF imp this] here show ?thesis by simp
  qed
qed

text \<open>Two kept rows with different values have different ranks.\<close>

lemma competition_rank_strict:
  assumes "r \<in> set df" and "complete_row r" and "col r = Some u" and "v < u"
  shows "competition_rank col df u < competition_rank col df v"
proof -
  have "length (filter (\<lambda>r. complete_row r \<and> exceeds u (col r)) df)
      < length (filter (\<lambda>r. complete_row r \<and> exceeds v (col r)) df)"
  proof (rule length_filter_strict)
    show "\<forall>x\<in>set df. complete_row x \<and> exceeds u (col x) \<longrightarrow> complete_row x \<and> exceeds v (col x)"
      using assms(4) by (auto simp: exceeds_def split: option.splits)
    show "\<exists>x\<in>set df. (complete_row x \<and> exceeds v (col x)) \<and> \<not> (complete_row x \<and> exceeds u (col x))"
      using assms by (intro bexI [of _ r]) (auto simp: exceeds_def)
  qed
  then show ?thesis by (simp add: competition_rank_def)
qed

lemma competition_rank_inj:
  assumes "r \<in> set df" "complete_row r" "col r = Some u"
    and "r' \<in> set df" "complete_row r'" "col r' = Some v"
    and "competition_rank col df u = competition_rank col df v"
  shows "u = v"
proof (rule ccontr)
  assume "u \<noteq> v"
  then consider "u < v" | "v < u" by linarith
  then show False
  proof cases
    case 1
    with competition_rank_strict [of r' df col v u] assms show False by simp
  next
    case 2
    with competition_rank_strict [of r df col u v] assms show False by simp
  qed
qed

lemma sorted_same_mset:
  assumes "sorted xs" and "sorted ys" and "mset xs = mset ys"
  shows "xs = (ys :: 'k :: linorder list)"
proof -
  from assms(1,3) have "sort ys = xs" by (intro properties_for_sort) simp_all
  moreover from assms(2) have "sort ys = ys" by (intro properties_for_sort) simp_all
  ultimately show ?thesis by simp
qed

text \<open>
  Claim C6, as amended. The ranking is a function of the input sequence, so two runs on
  the same sequence agree. On the same records in another order the output holds the
  same ranked rows, with the same sequence of sort keys; and it is the same sequence
  whenever no two different complete rows agree in both EY and ROC.
\<close>

theorem magic_formula_rank_permuted:
  assumes "mset df = mset (df' :: 'a frame_row list)"
  shows "mset (magic_formula_rank df) = mset (magic_formula_rank df')
       \<and> map sort_keys (magic_formula_rank df) = map sort_keys (magic_formula_rank df')
       \<and> (inj_on (\<lambda>r. (col_EY r, col_ROC r)) {r \<in> set df. complete_row r} \<longrightarrow>
            magic_formula_rank df = magic_formula_rank df')"
proof -
  define G :: "'a frame_row \<Rightarrow> 'a ranked" where "G = (\<lambda>r. \<lparr>row = r,
                  EY_rank = competition_rank col_EY df (the (col_EY r)),
                  ROC_rank = competition_rank col_ROC df (the (col_ROC r)),
                  MF_score = competition_rank col_EY df (the (col_EY r))
                             + competition_rank col_ROC df (the (col_ROC r))\<rparr>)"
  have out: "magic_formula_rank df = sort_key sort_keys (map G (filter complete_row df))"
    by (simp add: magic_formula_rank_eq G_def)
  have out': "magic_formula_rank df' = sort_key sort_keys (map G (filter complete_row df'))"
    by (simp add: magic_formula_rank_eq G_def competition_rank_mset [OF assms])
  have ms: "mset (magic_formula_rank df) = mset (magic_formula_rank df')"
    by (simp add: out out' assms)
  have keys: "map sort_keys (magic_formula_rank df) = map sort_keys (magic_formula_rank df')"
  proof (rule sorted_same_mset)
    show "sorted (map sort_keys (magic_formula_rank df))" by (simp add: out)
    show "sorted (map sort_keys (magic_formula_rank df'))" by (simp add: out')
    show "mset (map sort_keys (magic_formula_rank df)) = mset (map sort_keys (magic_formula_rank df'))"
      using ms by (metis mset_map)
  qed
  have same: "magic_formula_rank df = magic_formula_rank df'"
    if inj: "inj_on (\<lambda>r. (col_EY r, col_ROC r)) {r \<in> set df. complete_row r}"
  proof -
    have set_out: "set (magic_formula_rank df) = G ` {r \<in> set df. complete_row r}"
      by (auto simp: out)
    have "inj_on sort_keys (set (magic_formula_rank df))"
    proof (rule inj_onI)
      fix x y
      assume "x \<in> set (magic_formula_rank df)" "y \<in> set (magic_formula_rank df)"
        and k: "sort_keys x = sort_keys y"
      then obtain r r' where r: "r \<in> set df" "complete_row r" "x = G r"
        and r': "r' \<in> set df" "complete_row r'" "y = G r'"
        by (auto simp: set_out)
      from r(2) r'(2) obtain e c e' c' where v: "col_EY r = Some e" "col_ROC r = Some c"
        "col_EY r' = Some e'" "col_ROC r' = Some c'"
        by (auto simp: complete_row_def)
      from k r(3) r'(3) v
      have "competition_rank col_EY df e = competition_rank col_EY df e'"
        "competition_rank col_ROC df c = competition_rank col_ROC df c'"
        by (simp_all add: sort_keys_def G_def)
      with competition_rank_inj [OF r(1,2) v(1) r'(1,2) v(3)]
        competition_rank_inj [OF r(1,2) v(2) r'(1,2) v(4)]
      have "e = e'" "c = c'" by simp_all
      with v have "(col_EY r, col_ROC r) = (col_EY r', col_ROC r')" by simp
      with inj r r' have "r = r'" by (auto dest: inj_onD)
      with r(3) r'(3) show "x = y" by simp
    qed
    moreover from ms have "set (magic_formula_rank df') = set (magic_formula_rank df)"
      by (metis set_mset_mset)
    ultimately have "inj_on sort_keys (set (magic_formula_rank df) \<union> set (magic_formula_rank df'))"
      by simp
    from inj_on_map_eq_map [OF this] keys show ?thesis by simp
  qed
  from ms keys same show ?thesis by blast
qed

lemma magic_formula_rank_distinct_frame:
  "magic_formula_rank distinct_frame =
     [ranked_row ''A'' (1 / 5) (3 / 10) 1 2 3,
      ranked_row ''B'' (1 / 10) (1 / 2) 3 1 4,
      ranked_row ''C'' (3 / 20) (1 / 10) 2 3 5]"
  "magic_formula_rank (rev distinct_frame) =
     [ranked_row ''A'' (1 / 5) (3 / 10) 1 2 3,
      ranked_row ''B'' (1 / 10) (1 / 2) 3 1 4,
      ranked_row ''C'' (3 / 20) (1 / 10) 2 3 5]"
  by (simp_all add: rank_eval distinct_frame_def)

lemma distinct_frame_inj:
  "inj_on (\<lambda>r. (col_EY r, col_ROC r)) {r \<in> set distinct_frame. complete_row r}"
proof -
  have "distinct (map (\<lambda>r. (col_EY r, col_ROC r)) distinct_frame)"
    unfolding distinct_frame_def frame_row_def by (simp del: divide_eq_eq_numeral1 eq_divide_eq_numeral1)
  then have "inj_on (\<lambda>r. (col_EY r, col_ROC r)) (set distinct_frame)"
    by (simp add: distinct_map)
  then show ?thesis by (rule inj_on_subset) auto
qed

theorem magic_formula_rank_permuted_witness:
  "mset distinct_frame = mset (rev distinct_frame)
   \<and> inj_on (\<lambda>r. (col_EY r, col_ROC r)) {r \<in> set distinct_frame. complete_row r}
   \<and> magic_formula_rank distinct_frame = magic_formula_rank (rev distinct_frame)
   \<and> magic_formula_rank (rev distinct_frame) =
       [ranked_row ''A'' (1 / 5) (3 / 10) 1 2 3,
        ranked_row ''B'' (1 / 10) (1 / 2) 3 1 4,
        ranked_row ''C'' (3 / 20) (1 / 10) 2 3 5]"
proof -
  have p: "mset distinct_frame = mset (rev distinct_frame)" by simp
  from magic_formula_rank_permuted [OF p] distinct_frame_inj
  have "magic_formula_rank distinct_frame = magic_formula_rank (rev distinct_frame)" by blast
  with p distinct_frame_inj magic_formula_rank_distinct_frame(2) show ?thesis by blast
qed

text \<open>
  Claim C6, as stated, fails: two records that agree in EY and in ROC come out in the
  order in which they went in, so the same two records in the other order give another
  output sequence.
\<close>

theorem magic_formula_rank_order_dependent:
  "mset tied_frame = mset (rev tied_frame)
   \<and> map (cols \<circ> row) (magic_formula_rank tied_frame) = [''A'', ''B'']
   \<and> map (cols \<circ> row) (magic_formula_rank (rev tied_frame)) = [''B'', ''A'']"
  by (simp add: magic_formula_rank_tied_frame ranked_row_simps frame_row_simps)

section \<open>Properties of the scan\<close>

lemma list_symbols_symbol:
  assumes "list_symbols w ex min_mcap countries = Inr out" and "r \<in> set out"
  shows "\<exists>s. dict_get r ''symbol'' = Inr (JStr s) \<and> s \<noteq> []"
proof -
  from assms(1) obtain rs where "filter_rows w min_mcap countries rs = Inr out"
    by (auto simp: list_symbols_def bind_err_Inr_iff)
  from filter_rows_member [OF this assms(2)]
  have "keep_row w min_mcap countries r = Inr True" by simp
  then obtain sym where sym: "dict_get r ''symbol'' = Inr sym"
    and k: "(case sym of
               JStr s \<Rightarrow> if s \<noteq> [] then Inr True else Inr False
             | _ \<Rightarrow> Inr False) = (Inr True :: py_error + bool)"
    by (auto simp: keep_row_def bind_err_Inr_iff Let_def split: json.splits if_splits)
  from k obtain s where "sym = JStr s" "s \<noteq> []"
    by (cases sym) (simp_all split: if_splits)
  with sym show ?thesis by simp
qed

end
